theory Spec2Isabelle
  imports Complex_Main
begin

section \<open>Numbers, strings and errors\<close>

text \<open>
  JavaScript numbers are modelled as exact rationals: every balance and amount is a
  decimal value, \<open>Math.floor\<close> is \<open>floor\<close>, and the comparisons are the exact ones.
  NaN and the infinities are not values of the model.
\<close>

type_synonym number = rat

text \<open>Every \<open>throw\<close> of the source, and every rejection of a library or of the store.\<close>

datatype error =
    Bip39Error
  | HDKeyError
  | TronWebError
  | CryptoError
  | TransferError
  | ConnectionError
  | ER_DUP_ENTRY
  | ER_BAD_NULL_ERROR
  | ER_NO_REFERENCED_ROW
  | TypeError
  | BadRequest

text \<open>The decimal rendering of an integer, as a template literal prints it.\<close>

definition digit_char :: "nat \<Rightarrow> char" where
  "digit_char d = ''0123456789'' ! d"

fun string_of_nat :: "nat \<Rightarrow> string" where
  "string_of_nat n =
     (if n < 10 then [digit_char n]
      else string_of_nat (n div 10) @ [digit_char (n mod 10)])"

declare string_of_nat.simps [simp del]

definition string_of_int :: "int \<Rightarrow> string" where
  "string_of_int i =
     (if i < 0 then CHR ''-'' # string_of_nat (nat (- i)) else string_of_nat (nat i))"

text \<open>The inverse reading, used only to show that the rendering is injective.\<close>

definition digit_value :: "char \<Rightarrow> nat" where
  "digit_value c = length (takeWhile (\<lambda>x. x \<noteq> c) ''0123456789'')"

definition digits_value :: "string \<Rightarrow> nat" where
  "digits_value s = foldl (\<lambda>acc c. 10 * acc + digit_value c) 0 s"

definition int_of_string :: "string \<Rightarrow> int" where
  "int_of_string s =
     (case s of
        [] \<Rightarrow> 0
      | c # r \<Rightarrow> if c = CHR ''-'' then - int (digits_value r) else int (digits_value s))"

section \<open>WalletManager\<close>

subsection \<open>The environment: configuration, libraries, chain client\<close>

text \<open>
  \<open>process.env\<close> and the calls that leave the repository (bip39, hdkey, crypto-js,
  the TronWeb client) are parameters. A library call that throws is \<open>None\<close>.
  The fields named like environment variables hold their values. The mnemonic and the
  minimum sweep amount may be unset (\<open>None\<close>), the others are taken as set;
  \<open>MIN_SWEEP_AMOUNT\<close> holds the number \<open>parseFloat\<close> reads from the variable.
\<close>

record tx_reply =
  txid :: "string option"
  transaction_txID :: "string option"

record env =
  HD_WALLET_MNEMONIC :: "string option"
  MASTER_ADDRESS :: string
  ENCRYPTION_KEY :: string
  MIN_SWEEP_AMOUNT :: "number option"
  USDT_CONTRACT_ADDRESS :: string
  mnemonicToSeedSync :: "string \<Rightarrow> string option"
  hdkey_derive :: "string \<Rightarrow> string \<Rightarrow> string option"
  address_fromPrivateKey :: "string \<Rightarrow> string option"
  AES_encrypt :: "string \<Rightarrow> string \<Rightarrow> string \<Rightarrow> string option"
  AES_decrypt :: "string \<Rightarrow> string \<Rightarrow> string option"
  trx_getBalance :: "string \<Rightarrow> number option"
  usdt_balanceOf :: "string \<Rightarrow> number option"
  trx_sendTransaction :: "string \<Rightarrow> string \<Rightarrow> number \<Rightarrow> tx_reply option"
  usdt_transfer_send :: "string \<Rightarrow> string \<Rightarrow> int \<Rightarrow> nat \<Rightarrow> tx_reply option"

text \<open>
  \<open>hdkey_derive e seed path\<close> is the hex private key of
  \<open>HDKey.fromMasterSeed(seed).derive(path)\<close>; \<open>AES_encrypt e salt plaintext key\<close> is
  \<open>CryptoJS.AES.encrypt\<close> with its random salt made an argument;
  \<open>AES_decrypt e ciphertext key\<close> is the UTF-8 string of \<open>CryptoJS.AES.decrypt\<close>;
  \<open>trx_getBalance\<close> answers in sun and \<open>usdt_balanceOf\<close> in base units of the token;
  \<open>trx_sendTransaction e privateKey to sun\<close> and
  \<open>usdt_transfer_send e privateKey to amount feeLimit\<close> submit a transfer signed with
  \<open>privateKey\<close>.
\<close>

text \<open>The unit conversions of the client: one TRX is \<open>10^6\<close> sun.\<close>

definition fromSun :: "number \<Rightarrow> number" where
  "fromSun sun = sun / 1000000"

definition toSun :: "number \<Rightarrow> number" where
  "toSun trx = trx * 1000000"

subsection \<open>generateHDWallet\<close>

record hd_wallet =
  wallet_address :: string
  privateKey :: string
  derivationIndex :: int
  derivationPath :: string

definition derivation_path :: "int \<Rightarrow> string" where
  "derivation_path index = ''m/44'/195'/0'/0/'' @ string_of_int index"

text \<open>From the mnemonic to the wallet: seed, child key at the path, address.\<close>

definition derive_from :: "env \<Rightarrow> string \<Rightarrow> int \<Rightarrow> error + hd_wallet" where
  "derive_from e mnemonic index =
     (case mnemonicToSeedSync e mnemonic of
        None \<Rightarrow> Inl Bip39Error
      | Some seed \<Rightarrow>
          (case hdkey_derive e seed (derivation_path index) of
             None \<Rightarrow> Inl HDKeyError
           | Some key \<Rightarrow>
               (case address_fromPrivateKey e key of
                  None \<Rightarrow> Inl TronWebError
                | Some a \<Rightarrow>
                    Inr \<lparr>wallet_address = a, privateKey = key,
                         derivationIndex = index,
                         derivationPath = derivation_path index\<rparr>)))"

text \<open>
  \<open>generated\<close> is the mnemonic \<open>bip39.generateMnemonic()\<close> would draw at this call; it
  is read only when the configured one is missing (undefined or empty).
\<close>

definition generateHDWallet :: "env \<Rightarrow> string \<Rightarrow> int \<Rightarrow> error + hd_wallet" where
  "generateHDWallet e generated index =
     (let mnemonic =
            (case HD_WALLET_MNEMONIC e of
               None \<Rightarrow> generated
             | Some m \<Rightarrow> if m = [] then generated else m)
      in derive_from e mnemonic index)"

text \<open>
  What the claims about distinct addresses assume of the libraries: under one seed, two
  paths that both lead to an address lead to different addresses.
\<close>

definition collision_free :: "env \<Rightarrow> bool" where
  "collision_free e =
     (\<forall>seed p q k k' a a'.
        hdkey_derive e seed p = Some k \<and> hdkey_derive e seed q = Some k' \<and>
        address_fromPrivateKey e k = Some a \<and> address_fromPrivateKey e k' = Some a' \<and> a = a'
        \<longrightarrow> p = q)"

subsection \<open>Key encryption\<close>


definition decryptPrivateKey :: "env \<Rightarrow> string \<Rightarrow> error + string" where
  "decryptPrivateKey e encryptedPrivateKey =
     (case AES_decrypt e encryptedPrivateKey (ENCRYPTION_KEY e) of
        None \<Rightarrow> Inl CryptoError
      | Some k \<Rightarrow> Inr k)"

subsection \<open>Balances\<close>

definition getTRXBalance :: "env \<Rightarrow> string \<Rightarrow> number" where
  "getTRXBalance e a =
     (case trx_getBalance e a of None \<Rightarrow> 0 | Some balance \<Rightarrow> fromSun balance)"

definition getUSDTBalance :: "env \<Rightarrow> string \<Rightarrow> number" where
  "getUSDTBalance e a =
     (case usdt_balanceOf e a of None \<Rightarrow> 0 | Some balance \<Rightarrow> balance / 1000000)"

record account_info =
  info_address :: string
  trxBalance :: number
  usdtBalance :: number
  totalValue :: number

definition getAccountInfo :: "env \<Rightarrow> string \<Rightarrow> account_info" where
  "getAccountInfo e a =
     \<lparr>info_address = a,
      trxBalance = getTRXBalance e a,
      usdtBalance = getUSDTBalance e a,
      totalValue = getTRXBalance e a + getUSDTBalance e a\<rparr>"

subsection \<open>Transfers\<close>

text \<open>
  What the wallet asks of the chain client: a read of both balances of an address, and
  the transfers it submits, with the signing key, the destination and the amount (sun
  for the native token, base units and fee limit for the token contract).
\<close>

datatype chain_call =
    BalanceQuery string
  | SendTRX string string number
  | SendUSDT string string int nat

datatype token_kind = USDT | TRX

fun is_transfer :: "token_kind \<Rightarrow> chain_call \<Rightarrow> bool" where
  "is_transfer USDT (SendUSDT k t n f) = True"
| "is_transfer TRX (SendTRX k t n) = True"
| "is_transfer kind c = False"

definition feeLimit :: nat where
  "feeLimit = 100000000"

definition transferTRX :: "env \<Rightarrow> string \<Rightarrow> string \<Rightarrow> number \<Rightarrow> chain_call list \<times> (error + tx_reply)" where
  "transferTRX e fromPrivateKey toAddress trx_amount =
     ([SendTRX fromPrivateKey toAddress (toSun trx_amount)],
      (case trx_sendTransaction e fromPrivateKey toAddress (toSun trx_amount) of
         None \<Rightarrow> Inl TransferError
       | Some t \<Rightarrow> Inr t))"

definition transferUSDT :: "env \<Rightarrow> string \<Rightarrow> string \<Rightarrow> number \<Rightarrow> chain_call list \<times> (error + tx_reply)" where
  "transferUSDT e fromPrivateKey toAddress usdt_amount =
     (let amountInContractFormat = \<lfloor>usdt_amount * 1000000\<rfloor>
      in ([SendUSDT fromPrivateKey toAddress amountInContractFormat feeLimit],
          (case usdt_transfer_send e fromPrivateKey toAddress amountInContractFormat feeLimit of
             None \<Rightarrow> Inl TransferError
           | Some t \<Rightarrow> Inr t)))"

subsection \<open>sweepToMasterWallet\<close>

datatype tx_status = pending | confirmed | failed

record sweep_tx =
  tx_kind :: token_kind
  tx_amount :: number
  txHash :: "string option"
  tx_status :: tx_status

record sweep_result =
  res_address :: string
  res_transactions :: "sweep_tx list"
  res_totalSwept :: number

text \<open>\<open>tx.txid || tx.transaction?.txID\<close>: an empty string is falsy.\<close>

definition reply_hash :: "tx_reply \<Rightarrow> string option" where
  "reply_hash t =
     (case txid t of
        None \<Rightarrow> transaction_txID t
      | Some h \<Rightarrow> if h = [] then transaction_txID t else Some h)"

definition minSweep :: "env \<Rightarrow> number" where
  "minSweep e = (case MIN_SWEEP_AMOUNT e of None \<Rightarrow> 1 | Some m \<Rightarrow> m)"

text \<open>
  The fungible phase: the calls it made, the transactions it pushed and what it added
  to \<open>totalSwept\<close>. A rejected transfer is caught here and only logged.
\<close>

definition sweepUSDT :: "env \<Rightarrow> string \<Rightarrow> account_info \<Rightarrow> chain_call list \<times> sweep_tx list \<times> number" where
  "sweepUSDT e key info =
     (if usdtBalance info > minSweep e then
        (if trxBalance info \<ge> 15 then
           (case transferUSDT e key (MASTER_ADDRESS e) (usdtBalance info) of
              (cs, Inl err) \<Rightarrow> (cs, [], 0)
            | (cs, Inr usdtTx) \<Rightarrow>
                (cs,
                 [\<lparr>tx_kind = USDT, tx_amount = usdtBalance info,
                   txHash = reply_hash usdtTx, tx_status = pending\<rparr>],
                 usdtBalance info))
         else ([], [], 0))
      else ([], [], 0))"

text \<open>The native phase: one TRX is left behind.\<close>

definition sweepTRX :: "env \<Rightarrow> string \<Rightarrow> account_info \<Rightarrow> chain_call list \<times> sweep_tx list" where
  "sweepTRX e key info =
     (let trxToSweep = trxBalance info - 1
      in if trxToSweep > 1 / 10 then
           (case transferTRX e key (MASTER_ADDRESS e) trxToSweep of
              (cs, Inl err) \<Rightarrow> (cs, [])
            | (cs, Inr trxTx) \<Rightarrow>
                (cs,
                 [\<lparr>tx_kind = TRX, tx_amount = trxToSweep,
                   txHash = reply_hash trxTx, tx_status = pending\<rparr>]))
         else ([], []))"

record address_row =
  a_id :: int
  user_id :: int
  address :: string
  private_key_encrypted :: string
  derivation_index :: int
  label :: "string option"
  is_active :: bool

definition sweepToMasterWallet :: "env \<Rightarrow> address_row \<Rightarrow> chain_call list \<times> (error + sweep_result)" where
  "sweepToMasterWallet e addressData =
     (case decryptPrivateKey e (private_key_encrypted addressData) of
        Inl err \<Rightarrow> ([], Inl err)
      | Inr key \<Rightarrow>
          (let info = getAccountInfo e (address addressData);
               (cs1, txs1, swept) = sweepUSDT e key info;
               (cs2, txs2) = sweepTRX e key info
           in (BalanceQuery (address addressData) # cs1 @ cs2,
               Inr \<lparr>res_address = address addressData,
                    res_transactions = txs1 @ txs2,
                    res_totalSwept = swept\<rparr>)))"

section \<open>Database\<close>

text \<open>
  The tables as lists of rows in insertion order, with the constraints of the schema
  that decide an insert: \<open>UNIQUE\<close>, \<open>NOT NULL\<close>, \<open>FOREIGN KEY\<close>, \<open>AUTO_INCREMENT\<close>
  (one more than the largest id of the table) and the scale of a \<open>DECIMAL(20, 6)\<close>
  column. \<open>faults\<close> is the schedule of connection
  failures: each statement sent to the pool consumes one flag and throws when the flag
  is set; an empty schedule is a store that always answers.
\<close>

record user_row =
  u_id :: int
  telegram_id :: int

datatype tx_type = deposit | sweep | withdrawal

record transaction_row =
  t_id :: int
  address_id :: int
  tx_hash :: string
  from_address :: string
  to_address :: string
  amount :: number
  token_contract :: "string option"
  tx_type :: tx_type
  status :: tx_status

record database =
  users :: "user_row list"
  addresses :: "address_row list"
  transactions :: "transaction_row list"
  faults :: "bool list"

definition execute :: "database \<Rightarrow> bool \<times> database" where
  "execute d =
     (case faults d of
        [] \<Rightarrow> (True, d)
      | f # fs \<Rightarrow> (\<not> f, d\<lparr>faults := fs\<rparr>))"

definition next_id :: "int list \<Rightarrow> int" where
  "next_id ids = foldr max ids 0 + 1"

text \<open>A value stored in a \<open>DECIMAL(20, 6)\<close> column is rounded to six decimals.\<close>

definition decimal6 :: "number \<Rightarrow> number" where
  "decimal6 x = of_int \<lfloor>x * 1000000 + 1 / 2\<rfloor> / 1000000"


definition getUserByTelegramId :: "database \<Rightarrow> int \<Rightarrow> database \<times> (error + user_row option)" where
  "getUserByTelegramId d telegramId =
     (case execute d of
        (False, d') \<Rightarrow> (d', Inl ConnectionError)
      | (True, d') \<Rightarrow> (d', Inr (find (\<lambda>u. telegram_id u = telegramId) (users d'))))"



definition getAllActiveAddresses :: "database \<Rightarrow> database \<times> (error + address_row list)" where
  "getAllActiveAddresses d =
     (case execute d of
        (False, d') \<Rightarrow> (d', Inl ConnectionError)
      | (True, d') \<Rightarrow> (d', Inr (filter is_active (addresses d'))))"

text \<open>
  The hash is \<open>None\<close> when the caller passes \<open>undefined\<close>: the driver refuses an
  undefined bind parameter before anything is sent.
\<close>

definition createTransaction ::
  "database \<Rightarrow> int \<Rightarrow> string option \<Rightarrow> string \<Rightarrow> string \<Rightarrow> number \<Rightarrow> string option \<Rightarrow>
   tx_type \<Rightarrow> tx_status \<Rightarrow> database \<times> (error + int)" where
  "createTransaction d addressId hash fromAddress toAddress amt tokenContract txType st =
     (case hash of
        None \<Rightarrow> (d, Inl TypeError)
      | Some h \<Rightarrow>
          (case execute d of
             (False, d') \<Rightarrow> (d', Inl ConnectionError)
           | (True, d') \<Rightarrow>
               (if h \<in> set (map tx_hash (transactions d')) then (d', Inl ER_DUP_ENTRY)
                else if addressId \<notin> set (map a_id (addresses d')) then
                  (d', Inl ER_NO_REFERENCED_ROW)
                else
                  (let i = next_id (map t_id (transactions d'))
                   in (d'\<lparr>transactions := transactions d' @
                            [\<lparr>t_id = i, address_id = addressId, tx_hash = h,
                              from_address = fromAddress, to_address = toAddress,
                              amount = decimal6 amt, token_contract = tokenContract,
                              tx_type = txType, status = st\<rparr>]\<rparr>,
                       Inr i)))))"

section \<open>TRC20WalletServer\<close>

subsection \<open>performSweep\<close>

record sweep_stats =
  totalSwept :: number
  lastSweepTime :: "string option"
  sweepCount :: nat
  errors :: nat

record notification =
  note_to :: int
  note_amount :: number
  note_count :: nat

text \<open>The locals of one run of \<open>performSweep\<close>, and what the run did to the world.\<close>

record cycle =
  db :: database
  calls :: "chain_call list"
  notices :: "notification list"
  totalSweptAmount :: number
  sweepTransactions :: "sweep_tx list"
  errorCount :: nat

text \<open>\<open>for (const tx of sweepResult.transactions)\<close>: the first insert that throws ends it.\<close>

fun recordTransactions ::
  "env \<Rightarrow> address_row \<Rightarrow> database \<Rightarrow> sweep_tx list \<Rightarrow> database \<times> error option" where
  "recordTransactions e a d [] = (d, None)"
| "recordTransactions e a d (tx # txs) =
     (case createTransaction d (a_id a) (txHash tx) (address a) (MASTER_ADDRESS e)
             (tx_amount tx)
             (if tx_kind tx = USDT then Some (USDT_CONTRACT_ADDRESS e) else None)
             sweep (tx_status tx) of
        (d', Inl err) \<Rightarrow> (d', Some err)
      | (d', Inr i) \<Rightarrow> recordTransactions e a d' txs)"

text \<open>\<open>sendNotification\<close> of the bot: it looks the user up and swallows every error.\<close>

definition sendNotification :: "database \<Rightarrow> int \<Rightarrow> notification \<Rightarrow> database \<times> notification list" where
  "sendNotification d userId n =
     (case getUserByTelegramId d userId of
        (d', Inl err) \<Rightarrow> (d', [])
      | (d', Inr None) \<Rightarrow> (d', [])
      | (d', Inr (Some u)) \<Rightarrow> (d', [n]))"

text \<open>
  The body of the \<open>try\<close> of the loop, for one address: the state it leaves and the
  exception that left it, if one did.
\<close>

definition sweepAddress :: "env \<Rightarrow> cycle \<Rightarrow> address_row \<Rightarrow> cycle \<times> error option" where
  "sweepAddress e c a =
     (let accountInfo = getAccountInfo e (address a);
          c0 = c\<lparr>calls := calls c @ [BalanceQuery (address a)]\<rparr>
      in if usdtBalance accountInfo \<ge> minSweep e then
           (case sweepToMasterWallet e a of
              (cs, Inl err) \<Rightarrow> (c0\<lparr>calls := calls c0 @ cs\<rparr>, Some err)
            | (cs, Inr sweepResult) \<Rightarrow>
                (let c1 = c0\<lparr>calls := calls c0 @ cs\<rparr>
                 in if res_transactions sweepResult \<noteq> [] then
                      (let c2 = c1\<lparr>totalSweptAmount :=
                                      totalSweptAmount c1 + res_totalSwept sweepResult,
                                    sweepTransactions :=
                                      sweepTransactions c1 @ res_transactions sweepResult\<rparr>
                       in case recordTransactions e a (db c2) (res_transactions sweepResult) of
                            (d1, Some err) \<Rightarrow> (c2\<lparr>db := d1\<rparr>, Some err)
                          | (d1, None) \<Rightarrow>
                              (case getUserByTelegramId d1 (user_id a) of
                                 (d2, Inl err) \<Rightarrow> (c2\<lparr>db := d2\<rparr>, Some err)
                               | (d2, Inr None) \<Rightarrow> (c2\<lparr>db := d2\<rparr>, None)
                               | (d2, Inr (Some user)) \<Rightarrow>
                                   (case sendNotification d2 (telegram_id user)
                                           \<lparr>note_to = telegram_id user,
                                            note_amount = res_totalSwept sweepResult,
                                            note_count = length (res_transactions sweepResult)\<rparr> of
                                      (d3, ns) \<Rightarrow>
                                        (c2\<lparr>db := d3, notices := notices c2 @ ns\<rparr>, None))))
                    else (c1, None)))
         else (c0, None))"

text \<open>\<open>for (const address of addresses)\<close> with its \<open>catch\<close>.\<close>

fun sweepLoop :: "env \<Rightarrow> cycle \<Rightarrow> address_row list \<Rightarrow> cycle" where
  "sweepLoop e c [] = c"
| "sweepLoop e c (a # as) =
     (case sweepAddress e c a of
        (c', None) \<Rightarrow> sweepLoop e c' as
      | (c', Some err) \<Rightarrow> sweepLoop e (c'\<lparr>errorCount := errorCount c' + 1\<rparr>) as)"

text \<open>What the body of the loop left for each address, in order.\<close>

fun outcomes :: "env \<Rightarrow> cycle \<Rightarrow> address_row list \<Rightarrow> error option list" where
  "outcomes e c [] = []"
| "outcomes e c (a # as) =
     (case sweepAddress e c a of
        (c', None) \<Rightarrow> None # outcomes e c' as
      | (c', Some err) \<Rightarrow> Some err # outcomes e (c'\<lparr>errorCount := errorCount c' + 1\<rparr>) as)"

record server =
  store :: database
  sweepStats :: sweep_stats
  rpc_log :: "chain_call list"
  sent :: "notification list"

record sweep_report =
  success :: bool
  addressesChecked :: nat
  rep_totalSwept :: number
  transactionCount :: nat
  rep_errors :: nat

definition new_cycle :: "database \<Rightarrow> cycle" where
  "new_cycle d =
     \<lparr>db = d, calls = [], notices = [], totalSweptAmount = 0, sweepTransactions = [],
      errorCount = 0\<rparr>"

text \<open>\<open>now\<close> is the clock reading \<open>new Date().toISOString()\<close> at the end of the run.\<close>

definition performSweep :: "env \<Rightarrow> string \<Rightarrow> server \<Rightarrow> server \<times> (error + sweep_report)" where
  "performSweep e now s =
     (case getAllActiveAddresses (store s) of
        (d, Inl err) \<Rightarrow>
          (s\<lparr>store := d,
             sweepStats := (sweepStats s)\<lparr>errors := errors (sweepStats s) + 1\<rparr>\<rparr>,
           Inl err)
      | (d, Inr addrs) \<Rightarrow>
          (let c = sweepLoop e (new_cycle d) addrs
           in (s\<lparr>store := db c,
                 rpc_log := rpc_log s @ calls c,
                 sent := sent s @ notices c,
                 sweepStats :=
                   \<lparr>totalSwept = totalSwept (sweepStats s) + totalSweptAmount c,
                    lastSweepTime = Some now,
                    sweepCount = sweepCount (sweepStats s) + 1,
                    errors = errors (sweepStats s) + errorCount c\<rparr>\<rparr>,
               Inr \<lparr>success = True, addressesChecked = length addrs,
                    rep_totalSwept = totalSweptAmount c,
                    transactionCount = length (sweepTransactions c),
                    rep_errors = errorCount c\<rparr>)))"

subsection \<open>Address generation\<close>













section \<open>Sample worlds\<close>

text \<open>Concrete environments and stores at which the theorems below are instantiated.\<close>

definition scenario_env :: env where
  "scenario_env =
     \<lparr>HD_WALLET_MNEMONIC = Some ''seed'', MASTER_ADDRESS = ''TM'', ENCRYPTION_KEY = ''k'',
      MIN_SWEEP_AMOUNT = None, USDT_CONTRACT_ADDRESS = ''TU'',
      mnemonicToSeedSync = (\<lambda>m. Some m),
      hdkey_derive = (\<lambda>seed path. Some (seed @ path)),
      address_fromPrivateKey = (\<lambda>k. Some (CHR ''T'' # k)),
      AES_encrypt = (\<lambda>salt p k. Some (salt @ p)),
      AES_decrypt = (\<lambda>c k. Some (drop 1 c)),
      trx_getBalance = (\<lambda>a. Some 20000000),
      usdt_balanceOf = (\<lambda>a. Some 120500000),
      trx_sendTransaction = (\<lambda>k t n. Some \<lparr>txid = Some ''h2'', transaction_txID = None\<rparr>),
      usdt_transfer_send = (\<lambda>k t n f. Some \<lparr>txid = None, transaction_txID = Some ''h1''\<rparr>)\<rparr>"

definition scenario_row :: address_row where
  "scenario_row =
     \<lparr>a_id = 1, user_id = 1, address = ''TA'', private_key_encrypted = ''sK'',
      derivation_index = 0, label = None, is_active = True\<rparr>"

definition scenario_db :: database where
  "scenario_db =
     \<lparr>users = [\<lparr>u_id = 1, telegram_id = 1\<rparr>], addresses = [scenario_row],
      transactions = [], faults = []\<rparr>"

definition scenario_server :: server where
  "scenario_server =
     \<lparr>store = scenario_db,
      sweepStats = \<lparr>totalSwept = 0, lastSweepTime = None, sweepCount = 0, errors = 0\<rparr>,
      rpc_log = [], sent = []\<rparr>"


definition seedless_env :: env where
  "seedless_env = scenario_env\<lparr>HD_WALLET_MNEMONIC := None\<rparr>"


definition boundary_env :: env where
  "boundary_env = scenario_env\<lparr>usdt_balanceOf := (\<lambda>a. Some 1000000)\<rparr>"




definition rejecting_env :: env where
  "rejecting_env =
     scenario_env\<lparr>trx_sendTransaction := (\<lambda>k t n. None),
                  usdt_transfer_send := (\<lambda>k t n f. None)\<rparr>"

definition strict_env :: env where
  "strict_env =
     scenario_env\<lparr>AES_decrypt := (\<lambda>c k. if c = [] then None else Some (drop 1 c))\<rparr>"

definition broken_row :: address_row where
  "broken_row =
     \<lparr>a_id = 2, user_id = 1, address = ''TB'', private_key_encrypted = [],
      derivation_index = 1, label = None, is_active = True\<rparr>"

definition two_address_server :: server where
  "two_address_server =
     scenario_server\<lparr>store := scenario_db\<lparr>addresses := [broken_row, scenario_row]\<rparr>\<rparr>"

definition recorded_db :: database where
  "recorded_db =
     fst (createTransaction scenario_db 1 (Some ''h1'') ''TA'' ''TM'' 120.5 (Some ''TU'') sweep pending)"

section \<open>Unfolding the model\<close>

lemmas wallet_defs =
  getAccountInfo_def getTRXBalance_def getUSDTBalance_def fromSun_def toSun_def minSweep_def
  sweepToMasterWallet_def decryptPrivateKey_def sweepUSDT_def sweepTRX_def transferUSDT_def
  transferTRX_def feeLimit_def

lemmas store_defs =
  execute_def getAllActiveAddresses_def createTransaction_def next_id_def
  getUserByTelegramId_def sendNotification_def

lemma decimal6_exact: "decimal6 (of_int n / 1000000) = of_int n / 1000000"
proof -
  have "\<lfloor>(of_int n :: rat) + 1 / 2\<rfloor> = n"
    by (rule floor_unique) simp_all
  then show ?thesis
    by (simp add: decimal6_def)
qed

lemma decimal6_scenario: "decimal6 (241 / 2) = 241 / 2" "decimal6 19 = 19"
  using decimal6_exact [of 120500000] decimal6_exact [of 19000000] by simp_all

lemmas scenario_defs = scenario_env_def scenario_row_def scenario_db_def scenario_server_def

lemmas cycle_defs = performSweep_def new_cycle_def sweepAddress_def

section \<open>The decimal rendering is injective\<close>

lemma digit_cases: "d < 10 \<Longrightarrow> d \<in> {0, 1, 2, 3, 4, 5, 6, 7, 8, 9::nat}"
  by auto

lemma digit_value_char: "d < 10 \<Longrightarrow> digit_value (digit_char d) = d"
  using digit_cases [of d] by (auto simp: digit_value_def digit_char_def)

lemma digit_char_not_minus: "d < 10 \<Longrightarrow> digit_char d \<noteq> CHR ''-''"
  using digit_cases [of d] by (auto simp: digit_char_def)

lemma digits_value_snoc: "digits_value (s @ [c]) = 10 * digits_value s + digit_value c"
  by (simp add: digits_value_def)

lemma digits_value_string_of_nat: "digits_value (string_of_nat n) = n"
proof (induction n rule: string_of_nat.induct)
  case (1 n)
  show ?case
  proof (cases "n < 10")
    case True
    then show ?thesis
      by (simp add: string_of_nat.simps [of n] digits_value_def digit_value_char)
  next
    case False
    with 1 show ?thesis
      by (simp add: string_of_nat.simps [of n] digits_value_snoc digit_value_char)
  qed
qed

lemma string_of_nat_head: "\<exists>c r. string_of_nat n = c # r \<and> c \<noteq> CHR ''-''"
proof (induction n rule: string_of_nat.induct)
  case (1 n)
  show ?case
  proof (cases "n < 10")
    case True
    then show ?thesis
      by (simp add: string_of_nat.simps [of n] digit_char_not_minus)
  next
    case False
    with 1 obtain c r where "string_of_nat (n div 10) = c # r" "c \<noteq> CHR ''-''"
      by blast
    with False show ?thesis
      by (simp add: string_of_nat.simps [of n])
  qed
qed

lemma int_of_string_of_int: "int_of_string (string_of_int i) = i"
proof (cases "i < 0")
  case True
  then show ?thesis
    by (simp add: int_of_string_def string_of_int_def digits_value_string_of_nat)
next
  case False
  obtain c r where cr: "string_of_nat (nat i) = c # r" "c \<noteq> CHR ''-''"
    using string_of_nat_head by blast
  have "digits_value (c # r) = nat i"
    using digits_value_string_of_nat [of "nat i"] cr by simp
  with False cr show ?thesis
    by (simp add: int_of_string_def string_of_int_def)
qed

lemma string_of_int_inj: "string_of_int i = string_of_int j \<Longrightarrow> i = j"
  by (metis int_of_string_of_int)

lemma derivation_path_inj: "derivation_path i = derivation_path j \<Longrightarrow> i = j"
  by (simp add: derivation_path_def string_of_int_inj)

lemma path0: "derivation_path 0 = ''m/44'/195'/0'/0/0''"
  by (simp add: derivation_path_def string_of_int_def string_of_nat.simps digit_char_def)

lemma path1: "derivation_path 1 = ''m/44'/195'/0'/0/1''"
  by (simp add: derivation_path_def string_of_int_def string_of_nat.simps digit_char_def)


section \<open>The end-to-end scenario\<close>

text \<open>
  Claim C1, as the code has it. A cycle over a store whose only active address shows a
  token balance of 120.5 and a native balance of 20, under the default thresholds, with
  a key that decrypts, a store that answers and two accepted transfers with fresh
  hashes: the chain client receives the two balance reads, a token transfer of
  \<open>120500000\<close> base units and then a native transfer of 19 TRX; both are inserted as
  pending sweep rows with amounts 120.5 and 19; no error is counted; and \<open>totalSwept\<close>
  grows by 120.5, the token amount alone: \<open>sweepToMasterWallet\<close> adds only the token
  amount to its total.
\<close>

theorem end_to_end_sweep:
  assumes store_up: "faults (store s) = []"
    and only_a: "filter is_active (addresses (store s)) = [a]"
    and token: "usdtBalance (getAccountInfo e (address a)) = 120.5"
    and native: "trxBalance (getAccountInfo e (address a)) = 20"
    and defaults: "MIN_SWEEP_AMOUNT e = None"
    and key: "decryptPrivateKey e (private_key_encrypted a) = Inr k"
    and usdt_ok: "usdt_transfer_send e k (MASTER_ADDRESS e) 120500000 feeLimit = Some r1"
    and trx_ok: "trx_sendTransaction e k (MASTER_ADDRESS e) 19000000 = Some r2"
    and h1: "reply_hash r1 = Some h1" and h2: "reply_hash r2 = Some h2"
    and fresh: "h1 \<noteq> h2" "h1 \<notin> set (map tx_hash (transactions (store s)))"
      "h2 \<notin> set (map tx_hash (transactions (store s)))"
  shows "rpc_log (fst (performSweep e now s)) =
           rpc_log s @ [BalanceQuery (address a), BalanceQuery (address a),
                        SendUSDT k (MASTER_ADDRESS e) 120500000 feeLimit,
                        SendTRX k (MASTER_ADDRESS e) (toSun 19)]
       \<and> map (\<lambda>r. (tx_hash r, amount r, token_contract r, status r, tx_type r, from_address r, to_address r, address_id r))
             (transactions (store (fst (performSweep e now s)))) =
           map (\<lambda>r. (tx_hash r, amount r, token_contract r, status r, tx_type r, from_address r, to_address r, address_id r))
             (transactions (store s)) @
           [(h1, 120.5, Some (USDT_CONTRACT_ADDRESS e), pending, sweep, address a, MASTER_ADDRESS e, a_id a),
            (h2, 19, None, pending, sweep, address a, MASTER_ADDRESS e, a_id a)]
       \<and> totalSwept (sweepStats (fst (performSweep e now s))) = totalSwept (sweepStats s) + 120.5
       \<and> errors (sweepStats (fst (performSweep e now s))) = errors (sweepStats s)
       \<and> sweepCount (sweepStats (fst (performSweep e now s))) = sweepCount (sweepStats s) + 1"
proof -
  have "a \<in> set (filter is_active (addresses (store s)))"
    by (simp add: only_a)
  then have member: "a_id a \<in> a_id ` set (addresses (store s))"
    by auto
  have info: "getAccountInfo e (address a) = \<lparr>info_address = address a, trxBalance = 20, usdtBalance = 1205/10, totalValue = 20 + 1205/10\<rparr>"
    using token native by (simp add: getAccountInfo_def)
  have sw: "sweepToMasterWallet e a =
     ([BalanceQuery (address a), SendUSDT k (MASTER_ADDRESS e) 120500000 feeLimit, SendTRX k (MASTER_ADDRESS e) (toSun 19)],
      Inr \<lparr>res_address = address a,
           res_transactions = [\<lparr>tx_kind = USDT, tx_amount = 1205/10, txHash = Some h1, tx_status = pending\<rparr>,
                               \<lparr>tx_kind = TRX, tx_amount = 19, txHash = Some h2, tx_status = pending\<rparr>],
           res_totalSwept = 1205/10\<rparr>)"
    using key usdt_ok trx_ok h1 h2 defaults
    by (simp add: sweepToMasterWallet_def info sweepUSDT_def sweepTRX_def transferUSDT_def transferTRX_def minSweep_def toSun_def)
  show ?thesis
    using store_up only_a fresh member defaults
    by (simp add: performSweep_def new_cycle_def sweepAddress_def info sw minSweep_def store_defs decimal6_scenario Let_def
        split: option.split)
qed

text \<open>The scenario of the claim, run on the sample world.\<close>

theorem end_to_end_sweep_witness:
  "rpc_log (fst (performSweep scenario_env ''now'' scenario_server)) =
     [BalanceQuery ''TA'', BalanceQuery ''TA'', SendUSDT ''K'' ''TM'' 120500000 100000000,
      SendTRX ''K'' ''TM'' 19000000]
   \<and> map (\<lambda>r. (tx_hash r, amount r, token_contract r, status r, tx_type r, from_address r, to_address r, address_id r))
         (transactions (store (fst (performSweep scenario_env ''now'' scenario_server)))) =
       [(''h1'', 120.5, Some ''TU'', pending, sweep, ''TA'', ''TM'', 1),
        (''h2'', 19, None, pending, sweep, ''TA'', ''TM'', 1)]
   \<and> totalSwept (sweepStats (fst (performSweep scenario_env ''now'' scenario_server))) = 120.5"
proof -
  have hyps:
    "faults (store scenario_server) = []"
    "filter is_active (addresses (store scenario_server)) = [scenario_row]"
    "usdtBalance (getAccountInfo scenario_env (address (scenario_row))) = 120.5"
    "trxBalance (getAccountInfo scenario_env (address (scenario_row))) = 20"
    "MIN_SWEEP_AMOUNT scenario_env = None"
    "decryptPrivateKey scenario_env (private_key_encrypted (scenario_row)) = Inr ''K''"
    "usdt_transfer_send scenario_env ''K'' (MASTER_ADDRESS scenario_env) 120500000 feeLimit =
       Some \<lparr>txid = None, transaction_txID = Some ''h1''\<rparr>"
    "trx_sendTransaction scenario_env ''K'' (MASTER_ADDRESS scenario_env) 19000000 =
       Some \<lparr>txid = Some ''h2'', transaction_txID = None\<rparr>"
    "reply_hash \<lparr>txid = None, transaction_txID = Some ''h1''\<rparr> = Some ''h1''"
    "reply_hash \<lparr>txid = Some ''h2'', transaction_txID = None\<rparr> = Some ''h2''"
    "''h1'' \<noteq> ''h2''"
    "''h1'' \<notin> set (map tx_hash (transactions (store scenario_server)))"
    "''h2'' \<notin> set (map tx_hash (transactions (store scenario_server)))"
    by (simp_all add: scenario_defs wallet_defs reply_hash_def)
  show ?thesis
    using end_to_end_sweep [OF hyps, of "''now''"]
    by (simp add: scenario_defs toSun_def feeLimit_def)
qed

text \<open>
  In that world the total does not grow by 139.5, the sum of both amounts, although
  both transfers are submitted.
\<close>

theorem totalSwept_counterexample:
  "usdtBalance (getAccountInfo scenario_env ''TA'') = 120.5
   \<and> trxBalance (getAccountInfo scenario_env ''TA'') = 20
   \<and> map address (filter is_active (addresses (store scenario_server))) = [''TA'']
   \<and> rpc_log (fst (performSweep scenario_env ''now'' scenario_server)) =
       [BalanceQuery ''TA'', BalanceQuery ''TA'', SendUSDT ''K'' ''TM'' 120500000 100000000,
        SendTRX ''K'' ''TM'' 19000000]
   \<and> totalSwept (sweepStats (fst (performSweep scenario_env ''now'' scenario_server))) -
       totalSwept (sweepStats scenario_server) \<noteq> 139.5"
  by (simp add: scenario_defs performSweep_def new_cycle_def sweepAddress_def wallet_defs
      store_defs reply_hash_def decimal6_scenario)

section \<open>Recording a transaction twice\<close>

lemma execute_keeps: "transactions (snd (execute d)) = transactions d"
  by (simp add: execute_def split: list.split)

lemma createTransaction_inserted:
  assumes "createTransaction d i (Some h) f t amt tc ty st = (d1, Inr n)"
  shows "h \<notin> set (map tx_hash (transactions d))
       \<and> (\<exists>row. transactions d1 = transactions d @ [row] \<and> tx_hash row = h)"
  using assms
  by (auto simp: createTransaction_def execute_def Let_def
      split: list.splits if_splits bool.splits)

lemma createTransaction_present:
  assumes "h \<in> set (map tx_hash (transactions d))"
  shows "isl (snd (createTransaction d i (Some h) f t amt tc ty st))
       \<and> transactions (fst (createTransaction d i (Some h) f t amt tc ty st)) = transactions d
       \<and> (faults d = [] \<longrightarrow>
            snd (createTransaction d i (Some h) f t amt tc ty st) = Inl ER_DUP_ENTRY)"
  using assms
  by (auto simp: createTransaction_def execute_def Let_def
      split: list.splits if_splits bool.splits)

text \<open>
  Claim C2, as the code has it. After a transaction with hash \<open>h\<close> has been recorded,
  exactly one row carries \<open>h\<close>; a second call with the same hash, whatever its other
  arguments, leaves the rows as they are and throws: the violation of the \<open>UNIQUE\<close>
  constraint when the statement reaches the store, which \<open>createTransaction\<close> logs
  and throws again.
\<close>

theorem record_twice:
  assumes first: "createTransaction d i (Some h) f t amt tc ty st = (d1, Inr n)"
  shows "length (filter (\<lambda>r. tx_hash r = h) (transactions d1)) = 1
       \<and> isl (snd (createTransaction d1 i' (Some h) f' t' amt' tc' ty' st'))
       \<and> transactions (fst (createTransaction d1 i' (Some h) f' t' amt' tc' ty' st')) =
           transactions d1
       \<and> (faults d1 = [] \<longrightarrow>
            snd (createTransaction d1 i' (Some h) f' t' amt' tc' ty' st') = Inl ER_DUP_ENTRY)"
proof -
  from createTransaction_inserted [OF first]
  obtain row where new: "h \<notin> set (map tx_hash (transactions d))"
      "transactions d1 = transactions d @ [row]" "tx_hash row = h"
    by blast
  have "filter (\<lambda>r. tx_hash r = h) (transactions d) = []"
    using new(1) by (auto simp: filter_empty_conv)
  then have once: "length (filter (\<lambda>r. tx_hash r = h) (transactions d1)) = 1"
    using new by simp
  have "h \<in> set (map tx_hash (transactions d1))"
    using new by simp
  from createTransaction_present [OF this] once show ?thesis
    by blast
qed

lemma first_record:
  "createTransaction scenario_db 1 (Some ''h1'') ''TA'' ''TM'' 120.5 (Some ''TU'') sweep pending =
     (recorded_db, Inr 1)"
  by (simp add: recorded_db_def scenario_db_def scenario_row_def createTransaction_def
      execute_def next_id_def)

text \<open>The same record, inserted twice into the sample store.\<close>

theorem record_twice_witness:
  "map tx_hash (transactions recorded_db) = [''h1'']
   \<and> transactions (fst (createTransaction recorded_db 1 (Some ''h1'') ''TA'' ''TM'' 120.5
         (Some ''TU'') sweep pending)) = transactions recorded_db
   \<and> isl (snd (createTransaction recorded_db 1 (Some ''h1'') ''TA'' ''TM'' 120.5
         (Some ''TU'') sweep pending))"
proof -
  have "map tx_hash (transactions recorded_db) = [''h1'']"
    by (simp add: recorded_db_def scenario_db_def scenario_row_def createTransaction_def
      execute_def next_id_def)
  with record_twice [OF first_record, of 1 "''TA''" "''TM''" "120.5" "Some ''TU''" sweep pending]
  show ?thesis
    by blast
qed

text \<open>The second call is not a silent no-op: its caller gets the duplicate-entry error.\<close>

theorem duplicate_hash_counterexample:
  "map tx_hash (transactions recorded_db) = [''h1'']
   \<and> snd (createTransaction recorded_db 1 (Some ''h1'') ''TA'' ''TM'' 120.5 (Some ''TU'')
        sweep pending) = Inl ER_DUP_ENTRY"
  by (simp add: recorded_db_def scenario_db_def scenario_row_def createTransaction_def
      execute_def next_id_def)

section \<open>Derivation indices\<close>

lemma execute_addresses: "addresses (snd (execute d)) = addresses d"
  by (simp add: execute_def split: list.split)

























section \<open>Derivation\<close>

text \<open>
  Claim C7, as the code has it. \<open>generateHDWallet\<close> checks neither the seed nor the
  index: with no configured mnemonic (unset or empty) it derives from the mnemonic it
  has just generated, otherwise from the configured one; and the derivation fails
  exactly when a library call throws: the seed computation, the child key at the path of
  the index, or the address of that key. A negative index is not refused: its path ends
  in a minus sign and the digits, and goes to the library as it is.
\<close>

theorem generateHDWallet_outcome:
  "(HD_WALLET_MNEMONIC e = None \<or> HD_WALLET_MNEMONIC e = Some [] \<longrightarrow>
      generateHDWallet e generated index = derive_from e generated index)
   \<and> (\<forall>m. HD_WALLET_MNEMONIC e = Some m \<and> m \<noteq> [] \<longrightarrow>
        generateHDWallet e generated index = derive_from e m index)
   \<and> (isl (derive_from e mnemonic index) \<longleftrightarrow>
        (case mnemonicToSeedSync e mnemonic of
           None \<Rightarrow> True
         | Some seed \<Rightarrow>
             (case hdkey_derive e seed (derivation_path index) of
                None \<Rightarrow> True
              | Some key \<Rightarrow> address_fromPrivateKey e key = None)))
   \<and> (index < 0 \<longrightarrow>
        derivation_path index = ''m/44'/195'/0'/0/-'' @ string_of_nat (nat (- index)))"
proof -
  have absent: "generateHDWallet e generated index = derive_from e generated index"
    if "HD_WALLET_MNEMONIC e = None \<or> HD_WALLET_MNEMONIC e = Some []"
    using that by (auto simp: generateHDWallet_def)
  have configured: "generateHDWallet e generated index = derive_from e m index"
    if "HD_WALLET_MNEMONIC e = Some m \<and> m \<noteq> []" for m
    using that by (simp add: generateHDWallet_def)
  have thrown: "isl (derive_from e mnemonic index) \<longleftrightarrow>
        (case mnemonicToSeedSync e mnemonic of
           None \<Rightarrow> True
         | Some seed \<Rightarrow>
             (case hdkey_derive e seed (derivation_path index) of
                None \<Rightarrow> True
              | Some key \<Rightarrow> address_fromPrivateKey e key = None))"
    by (simp add: derive_from_def split: option.split)
  have negative: "derivation_path index = ''m/44'/195'/0'/0/-'' @ string_of_nat (nat (- index))"
    if "index < 0"
    using that by (simp add: derivation_path_def string_of_int_def)
  from absent configured thrown negative show ?thesis
    by blast
qed

text \<open>With no mnemonic configured, the sample libraries accept the generated one.\<close>

theorem generateHDWallet_outcome_witness:
  "HD_WALLET_MNEMONIC seedless_env = None
   \<and> generateHDWallet seedless_env ''fresh'' 0 = derive_from seedless_env ''fresh'' 0
   \<and> \<not> isl (derive_from seedless_env ''fresh'' 0)"
  using generateHDWallet_outcome [of seedless_env "''fresh''" 0 "''fresh''"]
  by (simp add: seedless_env_def scenario_env_def)

text \<open>With the seed absent the call does not fail: it returns an address of a fresh seed.\<close>

theorem absent_seed_counterexample:
  "HD_WALLET_MNEMONIC seedless_env = None
   \<and> generateHDWallet seedless_env ''fresh'' 0 =
       Inr \<lparr>wallet_address = ''Tfreshm/44'/195'/0'/0/0'', privateKey = ''freshm/44'/195'/0'/0/0'',
            derivationIndex = 0, derivationPath = ''m/44'/195'/0'/0/0''\<rparr>"
  by (simp add: seedless_env_def scenario_env_def generateHDWallet_def derive_from_def path0)

text \<open>
  Claim C9. With a configured mnemonic and libraries free of collisions: a second call at
  the same index returns the same wallet, address and private key, whatever the random
  draw of the call; two indices whose derivations succeed give different addresses when
  the indices differ; and the path is the fixed template followed by the decimal index,
  so that two paths agree only at the same index.
\<close>

theorem derive_deterministic:
  assumes seed: "HD_WALLET_MNEMONIC e = Some m" "m \<noteq> []"
    and lib: "collision_free e"
    and i: "generateHDWallet e g i = Inr w"
    and j: "generateHDWallet e g' j = Inr w'"
  shows "generateHDWallet e g' i = Inr w
       \<and> (i \<noteq> j \<longrightarrow> wallet_address w \<noteq> wallet_address w')
       \<and> derivationPath w = ''m/44'/195'/0'/0/'' @ string_of_int i
       \<and> (derivationPath w = derivationPath w' \<longleftrightarrow> i = j)"
proof -
  have same: "generateHDWallet e g' i = generateHDWallet e g i"
    using seed by (simp add: generateHDWallet_def)
  obtain s k where ik: "mnemonicToSeedSync e m = Some s"
      "hdkey_derive e s (derivation_path i) = Some k"
      "address_fromPrivateKey e k = Some (wallet_address w)"
      "derivationPath w = derivation_path i"
    using i seed by (auto simp: generateHDWallet_def derive_from_def split: option.splits)
  obtain k' where jk: "hdkey_derive e s (derivation_path j) = Some k'"
      "address_fromPrivateKey e k' = Some (wallet_address w')"
      "derivationPath w' = derivation_path j"
    using j seed ik(1) by (auto simp: generateHDWallet_def derive_from_def split: option.splits)
  have "derivation_path i = derivation_path j" if "wallet_address w = wallet_address w'"
    using lib ik jk that unfolding collision_free_def by blast
  then have "wallet_address w = wallet_address w' \<Longrightarrow> i = j"
    by (simp add: derivation_path_inj)
  moreover have "derivation_path i = derivation_path j \<longleftrightarrow> i = j"
    using derivation_path_inj by blast
  ultimately show ?thesis
    using same i ik(4) jk(3) by (auto simp: derivation_path_def)
qed

text \<open>Indices 0 and 1 under the sample libraries.\<close>

theorem derive_deterministic_witness:
  "generateHDWallet scenario_env ''other'' 0 = generateHDWallet scenario_env ''draw'' 0
   \<and> wallet_address (projr (generateHDWallet scenario_env ''draw'' 0)) \<noteq>
       wallet_address (projr (generateHDWallet scenario_env ''other'' 1))"
proof -
  have seed: "HD_WALLET_MNEMONIC scenario_env = Some ''seed''" "''seed'' \<noteq> []"
    by (simp_all add: scenario_env_def)
  have lib: "collision_free scenario_env"
    by (simp add: collision_free_def scenario_env_def)
  define w where "w = \<lparr>wallet_address = ''Tseedm/44'/195'/0'/0/0'',
      privateKey = ''seedm/44'/195'/0'/0/0'', derivationIndex = 0,
      derivationPath = ''m/44'/195'/0'/0/0''\<rparr>"
  define w' where "w' = \<lparr>wallet_address = ''Tseedm/44'/195'/0'/0/1'',
      privateKey = ''seedm/44'/195'/0'/0/1'', derivationIndex = 1,
      derivationPath = ''m/44'/195'/0'/0/1''\<rparr>"
  have i: "generateHDWallet scenario_env ''draw'' 0 = Inr w"
    by (simp add: scenario_env_def generateHDWallet_def derive_from_def path0 w_def)
  have j: "generateHDWallet scenario_env ''other'' 1 = Inr w'"
    by (simp add: scenario_env_def generateHDWallet_def derive_from_def path1 w'_def)
  note both = derive_deterministic [OF seed lib i j]
  have "generateHDWallet scenario_env ''other'' 0 = Inr w"
    using both by (rule conjunct1)
  moreover have "wallet_address w \<noteq> wallet_address w'"
    using conjunct1 [OF conjunct2 [OF both]] by simp
  ultimately show ?thesis
    by (simp add: i j)
qed

section \<open>Base units of the token\<close>




section \<open>The two gates of a sweep\<close>

lemma filter_transfer_query [simp]: "is_transfer kind (BalanceQuery x) = False"
  by (cases kind) simp_all








text \<open>
  Claim C3, at the boundary. A token balance equal to the minimum sweep amount, with
  enough gas: \<open>performSweep\<close> lets the address through (\<open>\<ge>\<close>), but
  \<open>sweepToMasterWallet\<close> asks for more than the minimum (\<open>>\<close>), so that the cycle
  submits the native sweep and no token transfer.
\<close>

theorem boundary_balance_not_swept:
  "usdtBalance (getAccountInfo boundary_env ''TA'') = 1
   \<and> minSweep boundary_env = 1
   \<and> trxBalance (getAccountInfo boundary_env ''TA'') = 20
   \<and> map address (filter is_active (addresses (store scenario_server))) = [''TA'']
   \<and> rpc_log (fst (performSweep boundary_env ''now'' scenario_server)) =
       [BalanceQuery ''TA'', BalanceQuery ''TA'', SendTRX ''K'' ''TM'' 19000000]"
  by (simp add: boundary_env_def scenario_defs cycle_defs wallet_defs store_defs reply_hash_def
      decimal6_scenario)

section \<open>Failures inside a cycle\<close>

lemma sweepAddress_errorCount: "errorCount (fst (sweepAddress e c a)) = errorCount c"
  by (simp add: sweepAddress_def Let_def split: prod.split sum.split option.split)

lemma sweepAddress_calls:
  "\<exists>cs. calls (fst (sweepAddress e c a)) = calls c @ BalanceQuery (address a) # cs"
  by (simp add: sweepAddress_def Let_def split: prod.split sum.split option.split)

lemma sweepLoop_calls: "\<exists>cs. calls (sweepLoop e c as) = calls c @ cs"
proof (induction as arbitrary: c)
  case Nil
  show ?case by simp
next
  case (Cons a as)
  obtain c' r where step: "sweepAddress e c a = (c', r)"
    by (cases "sweepAddress e c a")
  obtain cs where cs: "calls c' = calls c @ BalanceQuery (address a) # cs"
    using sweepAddress_calls [of e c a] step by auto
  show ?case
  proof (cases r)
    case None
    with step cs Cons.IH [of c'] show ?thesis by auto
  next
    case (Some err)
    with step cs Cons.IH [of "c'\<lparr>errorCount := errorCount c' + 1\<rparr>"] show ?thesis by auto
  qed
qed

lemma sweepLoop_queries:
  "set (map address as) \<subseteq> {x. BalanceQuery x \<in> set (calls (sweepLoop e c as))}"
proof (induction as arbitrary: c)
  case Nil
  show ?case by simp
next
  case (Cons a as)
  obtain c' r where step: "sweepAddress e c a = (c', r)"
    by (cases "sweepAddress e c a")
  obtain cs where cs: "calls c' = calls c @ BalanceQuery (address a) # cs"
    using sweepAddress_calls [of e c a] step by auto
  define c'' where "c'' = (case r of None \<Rightarrow> c' | Some err \<Rightarrow> c'\<lparr>errorCount := errorCount c' + 1\<rparr>)"
  have loop: "sweepLoop e c (a # as) = sweepLoop e c'' as"
    using step by (simp add: c''_def split: option.split)
  have "calls c'' = calls c'"
    by (simp add: c''_def split: option.split)
  then obtain ds where "calls (sweepLoop e c'' as) = calls c' @ ds"
    using sweepLoop_calls [of e c'' as] by auto
  with cs have "BalanceQuery (address a) \<in> set (calls (sweepLoop e c'' as))"
    by simp
  with Cons.IH [of c''] loop show ?case
    by auto
qed

lemma sweepLoop_errorCount:
  "errorCount (sweepLoop e c as) =
     errorCount c + length (filter (\<lambda>r. r \<noteq> None) (outcomes e c as))"
proof (induction as arbitrary: c)
  case Nil
  show ?case by simp
next
  case (Cons a as)
  obtain c' r where step: "sweepAddress e c a = (c', r)"
    by (cases "sweepAddress e c a")
  have "errorCount c' = errorCount c"
    using sweepAddress_errorCount [of e c a] step by simp
  with step Cons.IH show ?case
    by (cases r) simp_all
qed

lemma outcomes_length: "length (outcomes e c as) = length as"
  by (induction as arbitrary: c) (simp_all split: prod.split option.split)

lemma createTransaction_error:
  "createTransaction d i h f t amt tc ty st = (d', Inl err) \<Longrightarrow> err \<noteq> TransferError"
  by (auto simp: createTransaction_def execute_def Let_def
      split: option.splits list.splits if_splits bool.splits)

lemma recordTransactions_error:
  "recordTransactions e a d txs = (d', Some err) \<Longrightarrow> err \<noteq> TransferError"
proof (induction txs arbitrary: d)
  case Nil
  then show ?case by simp
next
  case (Cons tx txs)
  then show ?case
    by (auto split: prod.splits sum.splits dest: createTransaction_error)
qed

lemma sweepToMasterWallet_error:
  "sweepToMasterWallet e a = (cs, Inl err) \<Longrightarrow> err = CryptoError"
  by (auto simp: sweepToMasterWallet_def decryptPrivateKey_def Let_def
      split: option.splits prod.splits)

lemma getUserByTelegramId_error:
  "getUserByTelegramId d t = (d', Inl err) \<Longrightarrow> err = ConnectionError"
  by (auto simp: getUserByTelegramId_def execute_def split: list.splits if_splits bool.splits)

lemma sweepAddress_error: "snd (sweepAddress e c a) \<noteq> Some TransferError"
  by (auto simp: sweepAddress_def Let_def split: prod.splits sum.splits option.splits
      dest: sweepToMasterWallet_error recordTransactions_error getUserByTelegramId_error)

lemma outcomes_error: "Some TransferError \<notin> set (outcomes e c as)"
proof (induction as arbitrary: c)
  case Nil
  show ?case by simp
next
  case (Cons a as)
  obtain c' r where step: "sweepAddress e c a = (c', r)"
    by (cases "sweepAddress e c a")
  then have "r \<noteq> Some TransferError"
    using sweepAddress_error [of e c a] by simp
  with step Cons.IH show ?case
    by (cases r) auto
qed

text \<open>
  Claim C5, as the code has it. Every address of the list gets an outcome, so none is
  skipped because an earlier one failed; the error count of the loop grows by one for
  each address whose processing threw, and by nothing else; the balances of every
  listed address are queried; a rejected transfer is never what the loop catches,
  since \<open>sweepToMasterWallet\<close> catches it itself and only logs it; and whenever the
  enumeration succeeds, \<open>performSweep\<close> returns its report and adds the errors of the
  loop to the running count.
\<close>

theorem cycle_isolation:
  "length (outcomes e c as) = length as
   \<and> errorCount (sweepLoop e c as) =
       errorCount c + length (filter (\<lambda>r. r \<noteq> None) (outcomes e c as))
   \<and> set (map address as) \<subseteq> {x. BalanceQuery x \<in> set (calls (sweepLoop e c as))}
   \<and> Some TransferError \<notin> set (outcomes e c as)
   \<and> (\<forall>d listed. getAllActiveAddresses (store s) = (d, Inr listed) \<longrightarrow>
        (\<exists>report. snd (performSweep e now s) = Inr report \<and>
           addressesChecked report = length listed \<and>
           rep_errors report = length (filter (\<lambda>r. r \<noteq> None) (outcomes e (new_cycle d) listed)) \<and>
           errors (sweepStats (fst (performSweep e now s))) =
             errors (sweepStats s) + rep_errors report))"
  using outcomes_length [of e c as] sweepLoop_errorCount [of e c as] sweepLoop_queries [of as e c]
    outcomes_error [of e c as]
  by (auto simp: performSweep_def Let_def sweepLoop_errorCount new_cycle_def)

lemma broken_outcome:
  "sweepAddress strict_env c broken_row =
     (c\<lparr>calls := calls c @ [BalanceQuery ''TB'']\<rparr>, Some CryptoError)"
  by (simp add: strict_env_def broken_row_def scenario_env_def sweepAddress_def wallet_defs)

lemma sound_outcome:
  "snd (sweepAddress strict_env (new_cycle (store two_address_server)\<lparr>calls := [BalanceQuery ''TB''], errorCount := 1\<rparr>) scenario_row) = None"
  by (simp add: strict_env_def two_address_server_def broken_row_def scenario_defs new_cycle_def
      sweepAddress_def wallet_defs store_defs reply_hash_def decimal6_scenario)

text \<open>
  Two addresses, the first with a key that does not decrypt: one error is counted and
  the second address is swept all the same.
\<close>

theorem cycle_isolation_witness:
  "outcomes strict_env (new_cycle (store two_address_server)) [broken_row, scenario_row] =
     [Some CryptoError, None]
   \<and> errorCount (sweepLoop strict_env (new_cycle (store two_address_server))
        [broken_row, scenario_row]) = 1
   \<and> {''TB'', ''TA''} \<subseteq>
       {x. BalanceQuery x \<in> set (calls (sweepLoop strict_env (new_cycle (store two_address_server))
          [broken_row, scenario_row]))}"
proof -
  obtain c' where "sweepAddress strict_env
      (new_cycle (store two_address_server)\<lparr>calls := [BalanceQuery ''TB''], errorCount := 1\<rparr>)
      scenario_row = (c', None)"
    using sound_outcome by (metis prod.collapse)
  then have out: "outcomes strict_env (new_cycle (store two_address_server)) [broken_row, scenario_row] =
     [Some CryptoError, None]"
    by (simp add: broken_outcome new_cycle_def)
  have who: "map address [broken_row, scenario_row] = [''TB'', ''TA'']"
    by (simp add: broken_row_def scenario_row_def)
  note inst = cycle_isolation [of strict_env "new_cycle (store two_address_server)"
      "[broken_row, scenario_row]" two_address_server "''now''"]
  from conjunct1 [OF conjunct2 [OF inst]]
  have "errorCount (sweepLoop strict_env (new_cycle (store two_address_server))
          [broken_row, scenario_row]) =
        errorCount (new_cycle (store two_address_server)) +
        length (filter (\<lambda>r. r \<noteq> None) [Some CryptoError, None])"
    by (simp only: out)
  also have "\<dots> = 1"
    by (simp add: new_cycle_def)
  finally have counted: "errorCount (sweepLoop strict_env (new_cycle (store two_address_server))
          [broken_row, scenario_row]) = 1" .
  from conjunct1 [OF conjunct2 [OF conjunct2 [OF inst]]]
  have "set [''TB'', ''TA''] \<subseteq>
       {x. BalanceQuery x \<in> set (calls (sweepLoop strict_env (new_cycle (store two_address_server))
          [broken_row, scenario_row]))}"
    by (simp only: who)
  then have queried: "{''TB'', ''TA''} \<subseteq>
       {x. BalanceQuery x \<in> set (calls (sweepLoop strict_env (new_cycle (store two_address_server))
          [broken_row, scenario_row]))}"
    by (simp only: list.set)
  show ?thesis
    by (intro conjI out counted queried)
qed

text \<open>
  Both submissions of an address are rejected by the chain client, and the error count
  of the cycle does not move.
\<close>

theorem rejected_transfer_counterexample:
  "usdt_transfer_send rejecting_env ''K'' ''TM'' 120500000 100000000 = None
   \<and> trx_sendTransaction rejecting_env ''K'' ''TM'' 19000000 = None
   \<and> rpc_log (fst (performSweep rejecting_env ''now'' scenario_server)) =
       [BalanceQuery ''TA'', BalanceQuery ''TA'', SendUSDT ''K'' ''TM'' 120500000 100000000,
        SendTRX ''K'' ''TM'' 19000000]
   \<and> errors (sweepStats (fst (performSweep rejecting_env ''now'' scenario_server))) \<noteq>
       errors (sweepStats scenario_server) + 1"
  by (simp add: rejecting_env_def scenario_defs cycle_defs wallet_defs store_defs)

end
